theory Spec2Isabelle
  imports Main "HOL-Library.AList"
begin

section \<open>The CEP agent of \<open>cep_agent.py\<close>\<close>

text \<open>
  A shallow embedding of \<open>cep_agent.py\<close>: the event and pattern model, the bounded event
  buffer, the statistics counters and the pattern matching of \<open>CEPAgent\<close>.

  Conventions of the embedding.
  \<^item> A \<open>datetime\<close> is the integer count of the microseconds from 1970-01-01 00:00:00 to it,
    and a \<open>timedelta\<close> the integer count of its microseconds, so comparison and the
    difference of two datetimes are those of \<open>int\<close>. Datetimes are naive (without \<open>tzinfo\<close>),
    as \<open>datetime.now()\<close> returns them and as every event built in the repository has them.
    A \<open>datetime\<close> lies between \<open>datetime_min\<close> and \<open>datetime_max\<close>; subtracting a \<open>timedelta\<close>
    from a \<open>datetime\<close> raises \<open>OverflowError\<close> when the result leaves that range
    (\<open>datetime_sub\<close>). The difference of two datetimes always fits a \<open>timedelta\<close>.
  \<^item> A Python dictionary is an association list in insertion order; storing under a key that
    is present keeps the key's position (\<open>AList.update\<close>), as a Python \<open>dict\<close> does.
  \<^item> An exception is a value of type \<open>raised\<close>. A Python method that mutates the agent and
    may raise returns the raised exception (if any) together with the agent as the
    mutations made before the raise left it.
  \<^item> The system clock is a function from the number of readings so far to the value read,
    so that successive calls of \<open>datetime.now()\<close> may return any values.
  \<^item> The callables stored in a pattern (\<open>condition\<close>, \<open>action\<close>) act on a state \<open>'u\<close> of their
    own (anything outside the agent that they read or write) and may raise. They are assumed
    not to mutate the agent or the events they are given.
  \<^item> The agent's own calls of \<open>logger\<close> and the coroutine \<open>start_monitoring\<close> are not
    modelled.
  \<^item> Methods whose Python name starts with an underscore lose it: \<open>_check_patterns\<close> is
    \<open>check_patterns\<close>.
\<close>

subsection \<open>Python values and exceptions\<close>

datatype EventType = SENSOR_READING | ALERT | STATUS_CHANGE | THRESHOLD_BREACH | SYSTEM_EVENT

datatype EventPriority = LOW | MEDIUM | HIGH | CRITICAL

text \<open>\<open>EventType.value\<close> and \<open>EventPriority.name\<close>, the keys of the statistics dictionaries.\<close>

fun EventType_value :: "EventType \<Rightarrow> string" where
  "EventType_value SENSOR_READING = ''sensor_reading''"
| "EventType_value ALERT = ''alert''"
| "EventType_value STATUS_CHANGE = ''status_change''"
| "EventType_value THRESHOLD_BREACH = ''threshold_breach''"
| "EventType_value SYSTEM_EVENT = ''system_event''"

fun EventPriority_name :: "EventPriority \<Rightarrow> string" where
  "EventPriority_name LOW = ''LOW''"
| "EventPriority_name MEDIUM = ''MEDIUM''"
| "EventPriority_name HIGH = ''HIGH''"
| "EventPriority_name CRITICAL = ''CRITICAL''"

text \<open>
  The dynamically typed values that occur as payload of an event (\<open>Dict[str, Any]\<close>) and as
  arguments of \<open>get_events\<close>, which Python does not check against the annotation
  \<open>Optional[EventType]\<close>. Numbers are integers here.
\<close>

datatype py_value =
    PyNone
  | PyNum int
  | PyStr string
  | PyEventType EventType
  | PyEventPriority EventPriority

text \<open>Truth value of an object in \<open>if x:\<close>. Members of a plain \<open>Enum\<close> are always true.\<close>

fun truthy :: "py_value \<Rightarrow> bool" where
  "truthy PyNone = False"
| "truthy (PyNum n) = (n \<noteq> 0)"
| "truthy (PyStr s) = (s \<noteq> [])"
| "truthy (PyEventType t) = True"
| "truthy (PyEventPriority p) = True"

text \<open>
  \<open>Exception c\<close> is an instance of class \<open>c\<close> derived from \<open>Exception\<close>, which
  \<open>except Exception\<close> catches; \<open>BaseException c\<close> is an instance of a class outside
  \<open>Exception\<close> (\<open>KeyboardInterrupt\<close>, \<open>SystemExit\<close>), which it does not catch.
\<close>

datatype raised = Exception string | BaseException string

text \<open>
  The slice \<open>xs[start:]\<close>: a negative \<open>start\<close> counts from the end, and the bound is clamped
  to the list. In particular \<open>xs[-0:]\<close> is \<open>xs[0:]\<close>, the whole list.
\<close>

definition py_slice_from :: "'a list \<Rightarrow> int \<Rightarrow> 'a list" where
  "py_slice_from xs start =
     (let n = int (length xs);
          s = (if start < 0 then max (start + n) 0 else min start n)
      in drop (nat s) xs)"

text \<open>\<open>d.get(k, default)\<close>.\<close>

definition dict_get :: "('k \<times> 'v) list \<Rightarrow> 'k \<Rightarrow> 'v \<Rightarrow> 'v" where
  "dict_get d k dflt = (case map_of d k of None \<Rightarrow> dflt | Some v \<Rightarrow> v)"

text \<open>
  \<open>datetime.min\<close> is 0001-01-01 00:00:00 and \<open>datetime.max\<close> is 9999-12-31 23:59:59.999999;
  \<open>timedelta.max\<close> is 999999999 days, 23:59:59.999999 and \<open>timedelta.min\<close> is -999999999 days.
\<close>

definition datetime_min :: int where
  "datetime_min = - 62135596800000000"

definition datetime_max :: int where
  "datetime_max = 253402300799999999"



text \<open>\<open>t - delta\<close> for a \<open>datetime\<close> \<open>t\<close> and a \<open>timedelta\<close> \<open>delta\<close>.\<close>

definition datetime_sub :: "int \<Rightarrow> int \<Rightarrow> raised + int" where
  "datetime_sub t delta =
     (if t - delta < datetime_min \<or> datetime_max < t - delta
      then Inl (Exception ''OverflowError'')
      else Inr (t - delta))"

subsection \<open>Data model\<close>

record Event =
  event_id :: string
  event_type :: EventType
  timestamp :: int
  source :: string
  data :: "(string \<times> py_value) list"
  priority :: EventPriority
  processed :: bool

record 'u Pattern =
  pattern_id :: string
  name :: string
  event_types :: "EventType list"
  time_window :: int
  condition :: "Event list \<Rightarrow> 'u \<Rightarrow> (raised + bool) \<times> 'u"
  action :: "Event list \<Rightarrow> 'u \<Rightarrow> (raised + unit) \<times> 'u"
  description :: string

text \<open>The dictionary built by \<open>_handle_pattern_match\<close>; its keys carry the prefix \<open>det_\<close>.\<close>

record Detection =
  det_pattern_id :: string
  det_pattern_name :: string
  det_timestamp :: int
  det_matching_events :: "string list"
  det_description :: string

record Statistics =
  total_events :: int
  events_by_type :: "(string \<times> int) list"
  events_by_priority :: "(string \<times> int) list"
  patterns_detected :: int

text \<open>
  \<open>event_buffer\<close> with \<open>maxlen\<close> is the \<open>deque(maxlen=buffer_size)\<close>, oldest element first.
\<close>

record 'u CEPAgent =
  event_buffer :: "Event list"
  maxlen :: nat
  patterns :: "(string \<times> 'u Pattern) list"
  detected_patterns :: "Detection list"
  statistics :: Statistics
  is_running :: bool

text \<open>What is outside the agent: the clock and the state of the callables.\<close>

record 'u world =
  clock :: "nat \<Rightarrow> int"
  reads :: nat
  user :: 'u

definition datetime_now :: "'u world \<Rightarrow> int \<times> 'u world" where
  "datetime_now w = (clock w (reads w), w\<lparr>reads := Suc (reads w)\<rparr>)"

subsection \<open>\<open>Pattern.matches\<close>\<close>

text \<open>
  \<open>events[-1]\<close> raises \<open>IndexError\<close> on the empty list, which the first test lets through
  when \<open>event_types\<close> is empty.
\<close>

definition matches :: "'u Pattern \<Rightarrow> Event list \<Rightarrow> 'u \<Rightarrow> (raised + bool) \<times> 'u" where
  "matches p events u =
     (if length events < length (event_types p) then (Inr False, u)
      else if events = [] then (Inl (Exception ''IndexError''), u)
      else if timestamp (last events) - timestamp (hd events) > time_window p
        then (Inr False, u)
      else if py_slice_from (map event_type events) (- int (length (event_types p)))
                \<noteq> event_types p
        then (Inr False, u)
      else condition p events u)"

subsection \<open>\<open>CEPAgent\<close>\<close>

text \<open>\<open>deque(maxlen=n)\<close> raises \<open>ValueError\<close> for a negative \<open>n\<close>.\<close>

definition CEPAgent_init :: "int \<Rightarrow> raised + 'u CEPAgent" where
  "CEPAgent_init buffer_size =
     (if buffer_size < 0 then Inl (Exception ''ValueError'')
      else Inr \<lparr> event_buffer = [], maxlen = nat buffer_size, patterns = [],
                 detected_patterns = [],
                 statistics = \<lparr> total_events = 0, events_by_type = [],
                                events_by_priority = [], patterns_detected = 0 \<rparr>,
                 is_running = False \<rparr>)"

definition register_pattern :: "'u CEPAgent \<Rightarrow> 'u Pattern \<Rightarrow> 'u CEPAgent" where
  "register_pattern a pattern =
     a\<lparr>patterns := AList.update (pattern_id pattern) pattern (patterns a)\<rparr>"

text \<open>
  The clock is read only when the buffer is not empty. The subtraction that gives
  \<open>cutoff_time\<close> raises \<open>OverflowError\<close> when the cutoff is no \<open>datetime\<close>.
\<close>

definition get_recent_events ::
  "'u CEPAgent \<Rightarrow> int \<Rightarrow> 'u world \<Rightarrow> (raised + Event list) \<times> 'u world" where
  "get_recent_events a window w =
     (if event_buffer a = [] then (Inr [], w)
      else (let (now, w') = datetime_now w
            in case datetime_sub now window of
                 Inl ex \<Rightarrow> (Inl ex, w')
               | Inr cutoff_time \<Rightarrow>
                   (Inr (filter (\<lambda>e. timestamp e \<ge> cutoff_time) (event_buffer a)), w')))"

definition handle_pattern_match ::
  "'u CEPAgent \<Rightarrow> 'u Pattern \<Rightarrow> Event list \<Rightarrow> 'u world \<Rightarrow> raised option \<times> 'u CEPAgent \<times> 'u world" where
  "handle_pattern_match a pattern matching_events w =
     (let (now, w1) = datetime_now w;
          pattern_detection =
            \<lparr> det_pattern_id = pattern_id pattern,
              det_pattern_name = name pattern,
              det_timestamp = now,
              det_matching_events = map event_id matching_events,
              det_description = description pattern \<rparr>;
          st = statistics a;
          a1 = a\<lparr> detected_patterns := detected_patterns a @ [pattern_detection],
                  statistics := st\<lparr>patterns_detected := patterns_detected st + 1\<rparr> \<rparr>;
          (r, u') = action pattern matching_events (user w1);
          w2 = w1\<lparr>user := u'\<rparr>
      in case r of
           Inl (Exception c) \<Rightarrow> (None, a1, w2)
         | Inl (BaseException c) \<Rightarrow> (Some (BaseException c), a1, w2)
         | Inr _ \<Rightarrow> (None, a1, w2))"

text \<open>
  The body of the loop of \<open>_check_patterns\<close> is not inside a \<open>try\<close>: what
  \<open>_get_recent_events\<close> or \<open>matches\<close> raises ends the loop and leaves the method.
\<close>

fun check_patterns_loop ::
  "'u CEPAgent \<Rightarrow> 'u world \<Rightarrow> 'u Pattern list \<Rightarrow> raised option \<times> 'u CEPAgent \<times> 'u world" where
  "check_patterns_loop a w [] = (None, a, w)"
| "check_patterns_loop a w (pattern # rest) =
     (case get_recent_events a (time_window pattern) w of
        (Inl ex, w1) \<Rightarrow> (Some ex, a, w1)
      | (Inr recent_events, w1) \<Rightarrow>
          (let (r, u2) = matches pattern recent_events (user w1);
               w2 = w1\<lparr>user := u2\<rparr>
           in case r of
                Inl ex \<Rightarrow> (Some ex, a, w2)
              | Inr False \<Rightarrow> check_patterns_loop a w2 rest
              | Inr True \<Rightarrow>
                  (case handle_pattern_match a pattern recent_events w2 of
                     (Some ex, a', w3) \<Rightarrow> (Some ex, a', w3)
                   | (None, a', w3) \<Rightarrow> check_patterns_loop a' w3 rest)))"

definition check_patterns :: "'u CEPAgent \<Rightarrow> 'u world \<Rightarrow> raised option \<times> 'u CEPAgent \<times> 'u world" where
  "check_patterns a w = check_patterns_loop a w (map snd (patterns a))"

text \<open>
  \<open>deque.append\<close> on a bounded deque adds at the right and, when the length then exceeds
  \<open>maxlen\<close>, removes the leftmost element.
\<close>

definition deque_append :: "nat \<Rightarrow> 'a list \<Rightarrow> 'a \<Rightarrow> 'a list" where
  "deque_append n d x = (let d' = d @ [x] in if length d' > n then tl d' else d')"

definition add_event ::
  "'u CEPAgent \<Rightarrow> Event \<Rightarrow> 'u world \<Rightarrow> raised option \<times> 'u CEPAgent \<times> 'u world" where
  "add_event a event w =
     (let st = statistics a;
          event_type_key = EventType_value (event_type event);
          priority_key = EventPriority_name (priority event);
          st1 = st\<lparr> total_events := total_events st + 1,
                    events_by_type :=
                      AList.update event_type_key
                        (dict_get (events_by_type st) event_type_key 0 + 1) (events_by_type st),
                    events_by_priority :=
                      AList.update priority_key
                        (dict_get (events_by_priority st) priority_key 0 + 1)
                        (events_by_priority st) \<rparr>;
          a1 = a\<lparr> event_buffer := deque_append (maxlen a) (event_buffer a) event,
                  statistics := st1 \<rparr>
      in check_patterns a1 w)"

definition get_events :: "'u CEPAgent \<Rightarrow> py_value \<Rightarrow> py_value \<Rightarrow> int \<Rightarrow> Event list" where
  "get_events a event_type_arg priority_arg limit =
     (let events = event_buffer a;
          events1 = (if truthy event_type_arg
                     then filter (\<lambda>e. PyEventType (event_type e) = event_type_arg) events
                     else events);
          events2 = (if truthy priority_arg
                     then filter (\<lambda>e. PyEventPriority (priority e) = priority_arg) events1
                     else events1)
      in py_slice_from events2 (- limit))"

definition get_statistics :: "'u CEPAgent \<Rightarrow> Statistics" where
  "get_statistics a = statistics a"

definition get_detected_patterns :: "'u CEPAgent \<Rightarrow> int \<Rightarrow> Detection list" where
  "get_detected_patterns a limit = py_slice_from (detected_patterns a) (- limit)"

definition clear_buffer :: "'u CEPAgent \<Rightarrow> 'u CEPAgent" where
  "clear_buffer a = a\<lparr>event_buffer := []\<rparr>"

definition stop_monitoring :: "'u CEPAgent \<Rightarrow> 'u CEPAgent" where
  "stop_monitoring a = a\<lparr>is_running := False\<rparr>"

subsection \<open>The example patterns of \<open>create_example_patterns\<close>\<close>

text \<open>
  The example actions write to the module's logger only; their state is the list of the
  records they emit. \<open>LogWarning m n\<close> is the message \<open>m\<close> followed by the number \<open>n\<close>.
\<close>

datatype log_record = LogWarning string nat | LogCritical string

definition temperature_of :: "Event \<Rightarrow> py_value" where
  "temperature_of e = dict_get (data e) ''temperature'' (PyNum 0)"

fun num_of :: "py_value \<Rightarrow> int option" where
  "num_of (PyNum n) = Some n"
| "num_of v = None"

text \<open>
  \<open>max(values) - min(values)\<close> raises \<open>TypeError\<close> unless every value is a number.
\<close>

definition temperature_spike_condition :: "Event list \<Rightarrow> 'u \<Rightarrow> (raised + bool) \<times> 'u" where
  "temperature_spike_condition events u =
     (if length events < 2 then (Inr False, u)
      else (case those (map (num_of \<circ> temperature_of) events) of
              Some (v # vs) \<Rightarrow> (Inr (fold max vs v - fold min vs v > 10), u)
            | _ \<Rightarrow> (Inl (Exception ''TypeError''), u)))"

definition temperature_spike_action ::
  "Event list \<Rightarrow> log_record list \<Rightarrow> (raised + unit) \<times> log_record list" where
  "temperature_spike_action events lg =
     (Inr (), lg @ [LogWarning ''Temperature spike detected! Events: '' (length events)])"

definition minutes :: "int \<Rightarrow> int" where
  "minutes m = m * 60000000"

definition pattern1 :: "log_record list Pattern" where
  "pattern1 =
     \<lparr> pattern_id = ''temp_spike_01'', name = ''Temperature Spike'',
       event_types = [SENSOR_READING, SENSOR_READING], time_window = minutes 5,
       condition = temperature_spike_condition, action = temperature_spike_action,
       description = ''Detects rapid temperature changes'' \<rparr>"

definition critical_sequence_condition :: "Event list \<Rightarrow> 'u \<Rightarrow> (raised + bool) \<times> 'u" where
  "critical_sequence_condition events u = (Inr (list_ex (\<lambda>e. priority e = CRITICAL) events), u)"

definition critical_sequence_action ::
  "Event list \<Rightarrow> log_record list \<Rightarrow> (raised + unit) \<times> log_record list" where
  "critical_sequence_action events lg =
     (Inr (), lg @ [LogCritical ''Critical sequence detected! Immediate attention required.''])"

definition pattern2 :: "log_record list Pattern" where
  "pattern2 =
     \<lparr> pattern_id = ''critical_seq_01'', name = ''Critical Event Sequence'',
       event_types = [ALERT, THRESHOLD_BREACH], time_window = minutes 2,
       condition = critical_sequence_condition, action = critical_sequence_action,
       description = ''Detects critical alert sequences'' \<rparr>"

subsection \<open>Sequences of calls\<close>

text \<open>
  A caller of the agent makes calls one after the other. A call of \<open>add_event\<close> that raises
  has mutated the agent up to the raise; the caller may catch the exception and go on, so
  a sequence continues after it.
\<close>

datatype 'u call = Register "'u Pattern" | AddEvent Event | ClearBuffer

fun run :: "'u CEPAgent \<Rightarrow> 'u world \<Rightarrow> 'u call list \<Rightarrow> 'u CEPAgent \<times> 'u world" where
  "run a w [] = (a, w)"
| "run a w (Register p # cs) = run (register_pattern a p) w cs"
| "run a w (AddEvent e # cs) = (case add_event a e w of (r, a', w') \<Rightarrow> run a' w' cs)"
| "run a w (ClearBuffer # cs) = run (clear_buffer a) w cs"

text \<open>The events that a sequence of calls passes to \<open>add_event\<close>, in order.\<close>

fun ingested :: "'u call list \<Rightarrow> Event list" where
  "ingested [] = []"
| "ingested (AddEvent e # cs) = e # ingested cs"
| "ingested (c # cs) = ingested cs"

text \<open>The sum of \<open>d.values()\<close>.\<close>

definition sum_values :: "('k \<times> int) list \<Rightarrow> int" where
  "sum_values d = sum_list (map snd d)"

subsection \<open>Inputs used in the examples\<close>

text \<open>
  The event that \<open>add_manual_event\<close> of \<open>streamlit_app.py\<close> constructs, with the identifier
  and the time of creation as arguments.
\<close>

definition manual_event ::
  "string \<Rightarrow> EventType \<Rightarrow> EventPriority \<Rightarrow> string \<Rightarrow> int \<Rightarrow> int \<Rightarrow> int \<Rightarrow> Event" where
  "manual_event eid et pr src temperature humidity now =
     \<lparr> event_id = eid, event_type = et, timestamp = now, source = src,
       data = [(''temperature'', PyNum temperature), (''humidity'', PyNum humidity),
               (''status'', PyStr ''manual'')],
       priority = pr, processed = False \<rparr>"

definition reading0 :: Event where
  "reading0 = manual_event ''MAN_0000'' SENSOR_READING MEDIUM ''sensor_1'' 20 50 0"

definition reading1 :: Event where
  "reading1 = manual_event ''MAN_0001'' SENSOR_READING MEDIUM ''sensor_1'' 30 50 (minutes 1)"

definition reading2 :: Event where
  "reading2 = manual_event ''MAN_0002'' SENSOR_READING MEDIUM ''sensor_1'' 31 50 (minutes 2)"

definition alert0 :: Event where
  "alert0 = manual_event ''MAN_0003'' ALERT CRITICAL ''sensor_2'' 25 50 0"

definition breach1 :: Event where
  "breach1 = manual_event ''MAN_0004'' THRESHOLD_BREACH HIGH ''sensor_2'' 25 50 (minutes 1)"

definition breach_late :: Event where
  "breach_late = manual_event ''MAN_0005'' THRESHOLD_BREACH HIGH ''sensor_2'' 25 50 (minutes 3)"

text \<open>A world whose clock reads \<open>t\<close> at every reading.\<close>

definition stopped_clock :: "int \<Rightarrow> 'u \<Rightarrow> 'u world" where
  "stopped_clock t u = \<lparr> clock = (\<lambda>k. t), reads = 0, user = u \<rparr>"

text \<open>The agent \<open>CEPAgent()\<close> with the default \<open>buffer_size\<close>.\<close>

definition default_agent :: "log_record list CEPAgent" where
  "default_agent = projr (CEPAgent_init 1000)"

text \<open>A condition that always raises, and a pattern with it.\<close>

definition raising_condition :: "Event list \<Rightarrow> 'u \<Rightarrow> (raised + bool) \<times> 'u" where
  "raising_condition events u = (Inl (Exception ''ValueError''), u)"

definition raising_pattern :: "log_record list Pattern" where
  "raising_pattern =
     \<lparr> pattern_id = ''raising_01'', name = ''Raising'',
       event_types = [SENSOR_READING], time_window = minutes 5,
       condition = raising_condition, action = temperature_spike_action,
       description = ''always raises'' \<rparr>"

text \<open>A pattern with an empty type sequence and a window that is not positive.\<close>

definition invalid_pattern :: "log_record list Pattern" where
  "invalid_pattern =
     \<lparr> pattern_id = ''invalid_01'', name = ''Invalid'',
       event_types = [], time_window = 0,
       condition = critical_sequence_condition, action = critical_sequence_action,
       description = ''nothing to match'' \<rparr>"

section \<open>Properties\<close>

lemmas ev_defs = reading0_def reading1_def reading2_def alert0_def breach1_def breach_late_def
  manual_event_def minutes_def

lemmas agent_defs = default_agent_def CEPAgent_init_def register_pattern_def clear_buffer_def
  add_event_def check_patterns_def get_recent_events_def datetime_now_def matches_def
  handle_pattern_match_def py_slice_from_def deque_append_def dict_get_def stopped_clock_def
  datetime_sub_def datetime_min_def datetime_max_def

lemmas pat_defs = pattern1_def pattern2_def temperature_spike_condition_def
  temperature_spike_action_def critical_sequence_condition_def critical_sequence_action_def
  temperature_of_def raising_pattern_def raising_condition_def invalid_pattern_def

subsection \<open>What an evaluation pass leaves unchanged\<close>

lemma handle_pattern_match_frame:
  assumes "handle_pattern_match a p evs w = (r, a', w')"
  shows "event_buffer a' = event_buffer a" "maxlen a' = maxlen a" "patterns a' = patterns a"
    "is_running a' = is_running a"
    "total_events (statistics a') = total_events (statistics a)"
    "events_by_type (statistics a') = events_by_type (statistics a)"
    "events_by_priority (statistics a') = events_by_priority (statistics a)"
  using assms
  by (auto simp: handle_pattern_match_def datetime_now_def Let_def
      split: prod.splits sum.splits raised.splits)

lemma check_patterns_loop_frame:
  assumes "check_patterns_loop a w ps = (r, a', w')"
  shows "event_buffer a' = event_buffer a \<and> maxlen a' = maxlen a \<and> patterns a' = patterns a
    \<and> is_running a' = is_running a
    \<and> total_events (statistics a') = total_events (statistics a)
    \<and> events_by_type (statistics a') = events_by_type (statistics a)
    \<and> events_by_priority (statistics a') = events_by_priority (statistics a)"
  using assms
proof (induction ps arbitrary: a w)
  case Nil
  then show ?case by simp
next
  case (Cons p ps)
  obtain g w1 where g0: "get_recent_events a (time_window p) w = (g, w1)"
    by (cases "get_recent_events a (time_window p) w")
  show ?case
  proof (cases g)
    case (Inl ex)
    with Cons.prems g0 show ?thesis by simp
  next
    case recent: (Inr recent)
    with g0 have g: "get_recent_events a (time_window p) w = (Inr recent, w1)" by simp
    obtain m u2 where m: "matches p recent (user w1) = (m, u2)"
      by (cases "matches p recent (user w1)")
    show ?thesis
    proof (cases m)
      case (Inl ex)
      with Cons.prems g m show ?thesis by simp
    next
      case (Inr b)
      show ?thesis
      proof (cases b)
        case False
        with Cons.prems g m Inr
        have "check_patterns_loop a (w1\<lparr>user := u2\<rparr>) ps = (r, a', w')"
          by simp
        from Cons.IH[OF this] show ?thesis .
      next
        case True
        obtain hr a1 w3
          where h: "handle_pattern_match a p recent (w1\<lparr>user := u2\<rparr>) = (hr, a1, w3)"
          by (cases "handle_pattern_match a p recent (w1\<lparr>user := u2\<rparr>)")
        note fr = handle_pattern_match_frame[OF h]
        show ?thesis
        proof (cases hr)
          case None
          with Cons.prems g m Inr True h have "check_patterns_loop a1 w3 ps = (r, a', w')"
            by simp
          from Cons.IH[OF this] fr show ?thesis by simp
        next
          case (Some ex)
          with Cons.prems g m Inr True h have "a' = a1" by simp
          with fr show ?thesis by simp
        qed
      qed
    qed
  qed
qed

lemma add_event_effect:
  assumes "add_event a e w = (r, a', w')"
  shows "event_buffer a' = deque_append (maxlen a) (event_buffer a) e"
    and "maxlen a' = maxlen a" and "patterns a' = patterns a" and "is_running a' = is_running a"
    and "total_events (statistics a') = total_events (statistics a) + 1"
    and "events_by_type (statistics a') =
           AList.update (EventType_value (event_type e))
             (dict_get (events_by_type (statistics a)) (EventType_value (event_type e)) 0 + 1)
             (events_by_type (statistics a))"
    and "events_by_priority (statistics a') =
           AList.update (EventPriority_name (priority e))
             (dict_get (events_by_priority (statistics a)) (EventPriority_name (priority e)) 0 + 1)
             (events_by_priority (statistics a))"
  using assms unfolding add_event_def check_patterns_def Let_def
  by (auto dest!: check_patterns_loop_frame)

lemma add_event_cases:
  obtains r a' w' where "add_event a e w = (r, a', w')"
  by (cases "add_event a e w") auto

subsection \<open>The bounded buffer\<close>

lemma deque_append_length: "length d \<le> n \<Longrightarrow> length (deque_append n d x) \<le> n"
  by (auto simp: deque_append_def Let_def)

lemma deque_append_shift:
  assumes "length b \<le> n"
  shows "drop (length (deque_append n b e @ es) - n) (deque_append n b e @ es) =
         drop (length (b @ e # es) - n) (b @ e # es)"
proof (cases "length b < n")
  case True
  then show ?thesis by (simp add: deque_append_def)
next
  case False
  with assms have n: "length b = n" by simp
  have d: "deque_append n b e = tl (b @ [e])" using n by (simp add: deque_append_def)
  have t: "tl (b @ [e]) @ es = tl (b @ e # es)" by (cases b) simp_all
  have "length (tl (b @ [e]) @ es) - n = length es" using n by simp
  moreover have "length (b @ e # es) - n = Suc (length es)" using n by simp
  ultimately show ?thesis unfolding d t by (simp only: drop_Suc)
qed

lemma run_bound:
  "length (event_buffer a) \<le> maxlen a \<Longrightarrow>
   length (event_buffer (fst (run a w cs))) \<le> maxlen a \<and> maxlen (fst (run a w cs)) = maxlen a"
proof (induction a w cs rule: run.induct)
  case (3 a w e cs)
  obtain r a' w' where s: "add_event a e w = (r, a', w')" by (rule add_event_cases)
  from add_event_effect(1,2)[OF s] 3 show ?case
    using s by (simp add: deque_append_length)
qed (simp_all add: register_pattern_def clear_buffer_def)

lemma run_total:
  "total_events (statistics (fst (run a w cs))) =
     total_events (statistics a) + int (length (ingested cs))"
proof (induction a w cs rule: run.induct)
  case (3 a w e cs)
  obtain r a' w' where s: "add_event a e w = (r, a', w')" by (rule add_event_cases)
  from add_event_effect(5)[OF s] 3 show ?case
    using s by simp
qed (simp_all add: register_pattern_def clear_buffer_def)

lemma run_fifo:
  "length (event_buffer a) \<le> maxlen a \<Longrightarrow> ClearBuffer \<notin> set cs \<Longrightarrow>
   event_buffer (fst (run a w cs)) =
     drop (length (event_buffer a @ ingested cs) - maxlen a) (event_buffer a @ ingested cs)"
proof (induction a w cs rule: run.induct)
  case (3 a w e cs)
  obtain r a' w' where s: "add_event a e w = (r, a', w')" by (rule add_event_cases)
  note ef = add_event_effect(1,2)[OF s]
  have l: "length (event_buffer a') \<le> maxlen a'" using ef 3 by (simp add: deque_append_length)
  have "event_buffer (fst (run a' w' cs)) =
     drop (length (event_buffer a' @ ingested cs) - maxlen a') (event_buffer a' @ ingested cs)"
    using 3 s l by simp
  then show ?case using s ef deque_append_shift[OF "3.prems"(1), of e "ingested cs"] by simp
qed (simp_all add: register_pattern_def clear_buffer_def)

lemma init_fields:
  assumes "CEPAgent_init N = Inr a0"
  shows "event_buffer a0 = []" "maxlen a0 = nat N" "patterns a0 = []" "detected_patterns a0 = []"
    "total_events (statistics a0) = 0" "events_by_type (statistics a0) = []"
    "events_by_priority (statistics a0) = []" "patterns_detected (statistics a0) = 0"
  using assms by (auto simp: CEPAgent_init_def split: if_splits)

text \<open>
  Claim C4. An agent is constructed with capacity \<open>N\<close> and receives any sequence \<open>cs\<close> of
  calls. The buffer never holds more than \<open>N\<close> events. As long as the buffer is not cleared,
  it holds the last \<open>N\<close> of the events passed to \<open>add_event\<close> (all of them when there are
  fewer), in the order of their insertion: eviction removes the event inserted first and does
  not look at timestamps. \<open>total_events\<close> is the number of events ever passed to \<open>add_event\<close>.
  A single \<open>add_event\<close> on any agent appends the event and, when the buffer was full, removes
  exactly its oldest element; it adds one to \<open>total_events\<close>.
\<close>

theorem buffer_bounded_fifo:
  assumes "CEPAgent_init N = Inr a0"
  shows "length (event_buffer (fst (run a0 w cs))) \<le> nat N
       \<and> (ClearBuffer \<notin> set cs \<longrightarrow>
            event_buffer (fst (run a0 w cs)) = drop (length (ingested cs) - nat N) (ingested cs))
       \<and> total_events (statistics (fst (run a0 w cs))) = int (length (ingested cs))
       \<and> event_buffer (fst (snd (add_event a e v))) =
            (if length (event_buffer a) < maxlen a then event_buffer a @ [e]
             else tl (event_buffer a @ [e]))
       \<and> total_events (statistics (fst (snd (add_event a e v)))) = total_events (statistics a) + 1"
proof -
  note i = init_fields[OF assms]
  have b: "length (event_buffer a0) \<le> maxlen a0" using i by simp
  have 1: "length (event_buffer (fst (run a0 w cs))) \<le> nat N"
    using run_bound[OF b, of w cs] i by simp
  have 2: "ClearBuffer \<notin> set cs \<longrightarrow>
            event_buffer (fst (run a0 w cs)) = drop (length (ingested cs) - nat N) (ingested cs)"
    using run_fifo[OF b, of cs w] i by simp
  have 3: "total_events (statistics (fst (run a0 w cs))) = int (length (ingested cs))"
    using run_total[of a0 w cs] i by simp
  obtain r a' v' where s: "add_event a e v = (r, a', v')" by (rule add_event_cases)
  have 4: "event_buffer (fst (snd (add_event a e v))) =
            (if length (event_buffer a) < maxlen a then event_buffer a @ [e]
             else tl (event_buffer a @ [e]))"
    using add_event_effect(1)[OF s] s by (auto simp: deque_append_def Let_def)
  have 5: "total_events (statistics (fst (snd (add_event a e v)))) = total_events (statistics a) + 1"
    using add_event_effect(5)[OF s] s by simp
  from 1 2 3 4 5 show ?thesis by blast
qed

theorem buffer_bounded_fifo_witness:
  "CEPAgent_init 2 = Inr (projr (CEPAgent_init 2) :: log_record list CEPAgent)
   \<and> length (event_buffer (fst (run (projr (CEPAgent_init 2) :: log_record list CEPAgent)
        (stopped_clock 0 [])
        [Register pattern2, AddEvent reading0, AddEvent reading1, AddEvent reading2]))) \<le> 2
   \<and> event_buffer (fst (run (projr (CEPAgent_init 2) :: log_record list CEPAgent)
        (stopped_clock 0 [])
        [Register pattern2, AddEvent reading0, AddEvent reading1, AddEvent reading2]))
      = [reading1, reading2]
   \<and> total_events (statistics (fst (run (projr (CEPAgent_init 2) :: log_record list CEPAgent)
        (stopped_clock 0 [])
        [Register pattern2, AddEvent reading0, AddEvent reading1, AddEvent reading2]))) = 3
   \<and> event_buffer (fst (snd (add_event default_agent reading0 (stopped_clock 0 [])))) = [reading0]"
proof -
  have i: "CEPAgent_init 2 = Inr (projr (CEPAgent_init 2) :: log_record list CEPAgent)"
    by (simp add: CEPAgent_init_def)
  have d: "length (event_buffer default_agent) < maxlen default_agent"
    and e: "event_buffer default_agent = []"
    by (simp_all add: default_agent_def CEPAgent_init_def)
  show ?thesis
    using buffer_bounded_fifo[OF i, of "stopped_clock 0 []"
        "[Register pattern2, AddEvent reading0, AddEvent reading1, AddEvent reading2]"
        default_agent reading0 "stopped_clock 0 []"] i d e
    by (simp del: run.simps)
qed

subsection \<open>The statistics counters\<close>

lemma sum_values_update:
  "sum_values (AList.update k (dict_get d k 0 + 1) d) = sum_values d + 1"
  by (induction d) (auto simp: sum_values_def dict_get_def)

lemma run_stats:
  "total_events (statistics a) = sum_values (events_by_type (statistics a)) \<and>
   total_events (statistics a) = sum_values (events_by_priority (statistics a)) \<Longrightarrow>
   total_events (statistics (fst (run a w cs))) =
     sum_values (events_by_type (statistics (fst (run a w cs)))) \<and>
   total_events (statistics (fst (run a w cs))) =
     sum_values (events_by_priority (statistics (fst (run a w cs))))"
proof (induction a w cs rule: run.induct)
  case (3 a w e cs)
  obtain r a' w' where s: "add_event a e w = (r, a', w')" by (rule add_event_cases)
  note ef = add_event_effect(5,6,7)[OF s]
  have "total_events (statistics a') = sum_values (events_by_type (statistics a')) \<and>
        total_events (statistics a') = sum_values (events_by_priority (statistics a'))"
    using ef "3.prems" by (simp add: sum_values_update)
  from "3.IH"[OF s[symmetric] refl this] show ?case using s by simp
qed (simp_all add: register_pattern_def clear_buffer_def)

text \<open>
  Claim C10. After every sequence of \<open>register_pattern\<close>, \<open>add_event\<close> and \<open>clear_buffer\<close>
  calls on a constructed agent, \<open>total_events\<close> is the sum of the values of \<open>events_by_type\<close>
  and also the sum of the values of \<open>events_by_priority\<close>. Each \<open>add_event\<close> adds one to
  \<open>total_events\<close>, and in each of the two dictionaries adds one to the counter of the
  event's key (a missing counter counts as zero) and leaves every other key as it was;
  \<open>register_pattern\<close> and \<open>clear_buffer\<close> leave the statistics unchanged. This holds whether
  or not conditions and actions raise.
\<close>

theorem statistics_sums_agree:
  assumes "CEPAgent_init N = Inr a0"
  shows "total_events (statistics (fst (run a0 w cs))) =
           sum_values (events_by_type (statistics (fst (run a0 w cs))))
       \<and> total_events (statistics (fst (run a0 w cs))) =
           sum_values (events_by_priority (statistics (fst (run a0 w cs))))
       \<and> total_events (statistics (fst (snd (add_event a e v)))) = total_events (statistics a) + 1
       \<and> map_of (events_by_type (statistics (fst (snd (add_event a e v))))) =
           (map_of (events_by_type (statistics a)))
             (EventType_value (event_type e) \<mapsto>
                dict_get (events_by_type (statistics a)) (EventType_value (event_type e)) 0 + 1)
       \<and> map_of (events_by_priority (statistics (fst (snd (add_event a e v))))) =
           (map_of (events_by_priority (statistics a)))
             (EventPriority_name (priority e) \<mapsto>
                dict_get (events_by_priority (statistics a)) (EventPriority_name (priority e)) 0 + 1)
       \<and> sum_values (events_by_type (statistics (fst (snd (add_event a e v))))) =
           sum_values (events_by_type (statistics a)) + 1
       \<and> sum_values (events_by_priority (statistics (fst (snd (add_event a e v))))) =
           sum_values (events_by_priority (statistics a)) + 1
       \<and> statistics (register_pattern a p) = statistics a
       \<and> statistics (clear_buffer a) = statistics a"
proof -
  note i = init_fields[OF assms]
  have "total_events (statistics a0) = sum_values (events_by_type (statistics a0)) \<and>
        total_events (statistics a0) = sum_values (events_by_priority (statistics a0))"
    using i by (simp add: sum_values_def)
  note 1 = run_stats[OF this, of w cs]
  obtain r a' v' where s: "add_event a e v = (r, a', v')" by (rule add_event_cases)
  note ef = add_event_effect(5,6,7)[OF s]
  have 2: "total_events (statistics (fst (snd (add_event a e v)))) = total_events (statistics a) + 1"
    using ef s by simp
  have 3: "map_of (events_by_type (statistics (fst (snd (add_event a e v))))) =
           (map_of (events_by_type (statistics a)))
             (EventType_value (event_type e) \<mapsto>
                dict_get (events_by_type (statistics a)) (EventType_value (event_type e)) 0 + 1)"
    using ef s by (simp add: update_conv')
  have 4: "map_of (events_by_priority (statistics (fst (snd (add_event a e v))))) =
           (map_of (events_by_priority (statistics a)))
             (EventPriority_name (priority e) \<mapsto>
                dict_get (events_by_priority (statistics a)) (EventPriority_name (priority e)) 0 + 1)"
    using ef s by (simp add: update_conv')
  have 5: "sum_values (events_by_type (statistics (fst (snd (add_event a e v))))) =
           sum_values (events_by_type (statistics a)) + 1"
    using ef s by (simp add: sum_values_update)
  have 6: "sum_values (events_by_priority (statistics (fst (snd (add_event a e v))))) =
           sum_values (events_by_priority (statistics a)) + 1"
    using ef s by (simp add: sum_values_update)
  have 7: "statistics (register_pattern a p) = statistics a"
    by (simp add: register_pattern_def)
  have 8: "statistics (clear_buffer a) = statistics a"
    by (simp add: clear_buffer_def)
  from 1 2 3 4 5 6 7 8 show ?thesis by blast
qed

theorem statistics_sums_agree_witness:
  "CEPAgent_init 1000 = Inr default_agent
   \<and> total_events (statistics (fst (run default_agent (stopped_clock (minutes 2) [])
        [Register pattern1, AddEvent reading0, ClearBuffer, AddEvent alert0]))) =
     sum_values (events_by_type (statistics (fst (run default_agent (stopped_clock (minutes 2) [])
        [Register pattern1, AddEvent reading0, ClearBuffer, AddEvent alert0]))))
   \<and> total_events (statistics (fst (run default_agent (stopped_clock (minutes 2) [])
        [Register pattern1, AddEvent reading0, ClearBuffer, AddEvent alert0]))) =
     sum_values (events_by_priority (statistics (fst (run default_agent (stopped_clock (minutes 2) [])
        [Register pattern1, AddEvent reading0, ClearBuffer, AddEvent alert0]))))"
proof -
  have i: "CEPAgent_init 1000 = Inr default_agent"
    by (simp add: default_agent_def CEPAgent_init_def)
  show ?thesis
    using statistics_sums_agree[OF i, of "stopped_clock (minutes 2) []"
        "[Register pattern1, AddEvent reading0, ClearBuffer, AddEvent alert0]"] i
    by blast
qed

subsection \<open>Clearing the buffer\<close>

lemma py_slice_from_Nil: "py_slice_from [] start = []"
  by (simp add: py_slice_from_def)

text \<open>
  Claim C9. After \<open>clear_buffer\<close> the buffer is empty and \<open>get_events\<close> returns the empty list
  for every filter and every limit; the statistics, the registered patterns and the list of
  detections are what they were before.
\<close>

theorem clear_buffer_only_empties_buffer:
  "event_buffer (clear_buffer a) = []
   \<and> get_events (clear_buffer a) event_type_arg priority_arg limit = []
   \<and> get_statistics (clear_buffer a) = get_statistics a
   \<and> total_events (get_statistics (clear_buffer a)) = total_events (get_statistics a)
   \<and> events_by_type (get_statistics (clear_buffer a)) = events_by_type (get_statistics a)
   \<and> events_by_priority (get_statistics (clear_buffer a)) = events_by_priority (get_statistics a)
   \<and> patterns_detected (get_statistics (clear_buffer a)) = patterns_detected (get_statistics a)
   \<and> patterns (clear_buffer a) = patterns a
   \<and> detected_patterns (clear_buffer a) = detected_patterns a"
  by (simp add: clear_buffer_def get_events_def get_statistics_def py_slice_from_Nil)

subsection \<open>The time window\<close>




subsection \<open>Rejection by \<open>Pattern.matches\<close>\<close>

lemma py_slice_from_last:
  "0 < n \<Longrightarrow> n \<le> length xs \<Longrightarrow> py_slice_from xs (- int n) = drop (length xs - n) xs"
  by (simp add: py_slice_from_def Let_def max_def nat_diff_distrib')

lemma py_slice_from_zero: "py_slice_from xs 0 = xs"
  by (simp add: py_slice_from_def)

lemma matches_type_mismatch:
  assumes "map event_type (drop (length events - length (event_types p)) events) \<noteq> event_types p"
  shows "matches p events u = (Inr False, u)"
proof (cases "length events < length (event_types p)")
  case True
  then show ?thesis by (simp add: matches_def)
next
  case False
  then have le: "length (event_types p) \<le> length events" by simp
  have pos: "0 < length (event_types p)"
  proof (rule ccontr)
    assume "\<not> 0 < length (event_types p)"
    then have "event_types p = []" by simp
    with assms show False by simp
  qed
  from le pos have ne: "events \<noteq> []" by auto
  have "py_slice_from (map event_type events) (- int (length (event_types p))) =
        map event_type (drop (length events - length (event_types p)) events)"
    using py_slice_from_last[OF pos, of "map event_type events"] le by (simp add: drop_map)
  with assms False ne show ?thesis by (simp add: matches_def)
qed

text \<open>
  Claim C5. \<open>Pattern.matches\<close> returns \<open>False\<close>, without calling the condition, when there
  are fewer candidates than event types, when the last candidate's timestamp exceeds the
  first one's by more than the window, or when the types of the last \<open>len(event_types)\<close>
  candidates differ from \<open>event_types\<close>. So a pattern \<open>[ALERT, THRESHOLD_BREACH]\<close> does not
  match candidates that end with a threshold breach followed by an alert.
\<close>

theorem matches_rejects:
  "(length events < length (event_types p) \<longrightarrow> matches p events u = (Inr False, u))
   \<and> (events \<noteq> [] \<and> timestamp (last events) - timestamp (hd events) > time_window p
        \<longrightarrow> matches p events u = (Inr False, u))
   \<and> (map event_type (drop (length events - length (event_types p)) events) \<noteq> event_types p
        \<longrightarrow> matches p events u = (Inr False, u))
   \<and> (event_types p = [ALERT, THRESHOLD_BREACH]
        \<and> event_type e1 = THRESHOLD_BREACH \<and> event_type e2 = ALERT
        \<longrightarrow> matches p (before @ [e1, e2]) u = (Inr False, u))"
proof -
  have 1: "length events < length (event_types p) \<longrightarrow> matches p events u = (Inr False, u)"
    by (simp add: matches_def)
  have 2: "events \<noteq> [] \<and> timestamp (last events) - timestamp (hd events) > time_window p
        \<longrightarrow> matches p events u = (Inr False, u)"
    by (simp add: matches_def)
  have 3: "map event_type (drop (length events - length (event_types p)) events) \<noteq> event_types p
        \<longrightarrow> matches p events u = (Inr False, u)"
    by (simp add: matches_type_mismatch)
  have 4: "event_types p = [ALERT, THRESHOLD_BREACH]
        \<and> event_type e1 = THRESHOLD_BREACH \<and> event_type e2 = ALERT
        \<longrightarrow> matches p (before @ [e1, e2]) u = (Inr False, u)"
  proof
    assume h: "event_types p = [ALERT, THRESHOLD_BREACH]
        \<and> event_type e1 = THRESHOLD_BREACH \<and> event_type e2 = ALERT"
    then have "map event_type (drop (length (before @ [e1, e2]) - length (event_types p))
                 (before @ [e1, e2])) \<noteq> event_types p"
      by simp
    then show "matches p (before @ [e1, e2]) u = (Inr False, u)"
      by (rule matches_type_mismatch)
  qed
  from 1 2 3 4 show ?thesis by blast
qed

theorem matches_rejects_witness:
  "matches pattern2 [alert0] [] = (Inr False, [])
   \<and> matches pattern2 [alert0, breach_late] [] = (Inr False, [])
   \<and> matches pattern2 [reading0, breach1] [] = (Inr False, [])
   \<and> matches pattern2 ([reading0] @ [breach1, alert0]) [] = (Inr False, [])"
  using matches_rejects[where events="[alert0]" and p=pattern2 and u="[]"]
    matches_rejects[where events="[alert0, breach_late]" and p=pattern2 and u="[]"]
    matches_rejects[where events="[reading0, breach1]" and p=pattern2 and u="[]"]
    matches_rejects[where p=pattern2 and ?e1.0=breach1 and ?e2.0=alert0
      and before="[reading0]" and u="[]"]
  by (simp add: pattern2_def ev_defs)

subsection \<open>Registration\<close>

text \<open>
  Claim C3 says that \<open>register_pattern\<close> rejects a pattern whose type sequence is empty or
  whose window is not positive. The method has no check: the pattern below has both defects
  and is stored.
\<close>

theorem register_pattern_invalid_counterexample:
  "event_types invalid_pattern = [] \<and> time_window invalid_pattern \<le> 0
   \<and> map_of (patterns (register_pattern default_agent invalid_pattern))
        (pattern_id invalid_pattern) = Some invalid_pattern"
  by (simp add: register_pattern_def invalid_pattern_def default_agent_def CEPAgent_init_def)

text \<open>
  Claim C3 as amended. \<open>register_pattern\<close> accepts every pattern, whatever its type sequence
  and window: afterwards the registry maps the pattern's id to the pattern and every other id
  to what it mapped to before, and the rest of the agent is unchanged. The method cannot
  raise.
\<close>

theorem register_pattern_accepts_all:
  "map_of (patterns (register_pattern a p)) = (map_of (patterns a))(pattern_id p \<mapsto> p)
   \<and> map fst (patterns (register_pattern a p)) =
        (if pattern_id p \<in> fst ` set (patterns a) then map fst (patterns a)
         else map fst (patterns a) @ [pattern_id p])
   \<and> event_buffer (register_pattern a p) = event_buffer a
   \<and> maxlen (register_pattern a p) = maxlen a
   \<and> detected_patterns (register_pattern a p) = detected_patterns a
   \<and> statistics (register_pattern a p) = statistics a"
  by (simp add: register_pattern_def update_conv' update_keys)

subsection \<open>\<open>get_events\<close>\<close>

lemma get_events_positive_limit:
  assumes "0 < limit"
  shows "get_events a PyNone PyNone limit =
           drop (length (event_buffer a) - nat limit) (event_buffer a)"
    and "get_events a (PyEventType t) PyNone limit =
           drop (length (filter (\<lambda>e. event_type e = t) (event_buffer a)) - nat limit)
             (filter (\<lambda>e. event_type e = t) (event_buffer a))"
    and "get_events a PyNone (PyEventPriority q) limit =
           drop (length (filter (\<lambda>e. priority e = q) (event_buffer a)) - nat limit)
             (filter (\<lambda>e. priority e = q) (event_buffer a))"
    and "get_events a (PyEventType t) (PyEventPriority q) limit =
           drop (length (filter (\<lambda>e. priority e = q)
                   (filter (\<lambda>e. event_type e = t) (event_buffer a))) - nat limit)
             (filter (\<lambda>e. priority e = q) (filter (\<lambda>e. event_type e = t) (event_buffer a)))"
  using assms
  by (auto simp: get_events_def py_slice_from_def Let_def max_def nat_diff_distrib' nat_add_distrib)

text \<open>
  Claim C7 at \<open>limit = 0\<close>. The slice \<open>events[-limit:]\<close> is \<open>events[0:]\<close> there: \<open>get_events\<close>
  returns the whole buffer, not the empty list. \<open>get_detected_patterns\<close> slices in the same
  way.
\<close>

theorem get_events_limit_zero:
  "get_events (default_agent\<lparr>event_buffer := [reading0, alert0]\<rparr>) PyNone PyNone 0
     = [reading0, alert0]
   \<and> get_events a PyNone PyNone 0 = event_buffer a
   \<and> get_detected_patterns a 0 = detected_patterns a"
  by (simp add: get_events_def get_detected_patterns_def py_slice_from_zero)

text \<open>
  Claim C8 says that a filter value that is no member of the enumeration is rejected. There
  is no check: a string that names no event type selects nothing and the call returns the
  empty list; a value that Python takes for false selects everything.
\<close>

theorem get_events_unknown_filter_counterexample:
  "get_events (default_agent\<lparr>event_buffer := [reading0, alert0]\<rparr>) (PyStr ''bogus'') PyNone 100 = []
   \<and> get_events (default_agent\<lparr>event_buffer := [reading0, alert0]\<rparr>) PyNone (PyNum 0) 100
       = [reading0, alert0]"
  by (simp add: get_events_def py_slice_from_def)

text \<open>
  Claim C8 as amended. \<open>get_events\<close> does not validate its filter arguments and raises no
  error for them. A filter value that is not a member of the enumeration it is compared
  with selects no event when Python takes it for true, so that the result is empty, and is
  ignored like \<open>None\<close> when Python takes it for false.
\<close>

theorem get_events_unknown_filter:
  "((\<forall>t. v \<noteq> PyEventType t) \<longrightarrow>
      get_events a v priority_arg limit =
        (if truthy v then [] else get_events a PyNone priority_arg limit))
   \<and> ((\<forall>q. v \<noteq> PyEventPriority q) \<longrightarrow>
      get_events a event_type_arg v limit =
        (if truthy v then [] else get_events a event_type_arg PyNone limit))"
proof -
  have 1: "filter (\<lambda>e. PyEventType (event_type e) = v) xs = []" if "\<forall>t. v \<noteq> PyEventType t" for xs
    using that by (induction xs) auto
  have 2: "filter (\<lambda>e. PyEventPriority (priority e) = v) xs = []"
    if "\<forall>q. v \<noteq> PyEventPriority q" for xs
    using that by (induction xs) auto
  show ?thesis
    by (auto simp: get_events_def 1 2 py_slice_from_Nil Let_def)
qed

theorem get_events_unknown_filter_witness:
  "get_events (default_agent\<lparr>event_buffer := [reading0, alert0]\<rparr>) (PyStr ''sensor'') PyNone 10 = []
   \<and> get_events (default_agent\<lparr>event_buffer := [reading0, alert0]\<rparr>) PyNone (PyNum 4) 10 = []"
  using get_events_unknown_filter[where v="PyStr ''sensor''" and priority_arg=PyNone
      and a="default_agent\<lparr>event_buffer := [reading0, alert0]\<rparr>" and limit=10]
    get_events_unknown_filter[where v="PyNum 4" and event_type_arg=PyNone
      and a="default_agent\<lparr>event_buffer := [reading0, alert0]\<rparr>" and limit=10]
  by simp

subsection \<open>Exceptions raised by the callables\<close>

text \<open>
  An exception of class \<open>Exception\<close> raised by an action is caught in
  \<open>_handle_pattern_match\<close>: the method returns normally and the detection it appended stays.
\<close>

lemma action_exception_is_caught:
  assumes "fst (action p evs (user w)) = Inl (Exception c)"
  shows "fst (handle_pattern_match a p evs w) = None"
    and "detected_patterns (fst (snd (handle_pattern_match a p evs w))) =
           detected_patterns a @
             [\<lparr> det_pattern_id = pattern_id p, det_pattern_name = name p,
                det_timestamp = clock w (reads w), det_matching_events = map event_id evs,
                det_description = description p \<rparr>]"
    and "patterns_detected (statistics (fst (snd (handle_pattern_match a p evs w)))) =
           patterns_detected (statistics a) + 1"
  using assms
  by (auto simp: handle_pattern_match_def datetime_now_def Let_def split: prod.splits)

text \<open>
  Claim C2 for a condition. Two patterns are registered: one whose condition raises
  \<open>ValueError\<close>, and the temperature pattern. One reading is in the buffer and a second one,
  eleven degrees warmer, is added. \<open>add_event\<close> raises \<open>ValueError\<close> to its caller and the
  temperature pattern, which comes second, is not evaluated: nothing is detected. Without the
  raising pattern the same call returns normally and detects the temperature pattern.
\<close>

theorem condition_exception_propagates:
  "fst (add_event
         (fst (run default_agent (stopped_clock (minutes 2) [])
                [Register raising_pattern, Register pattern1, AddEvent reading0]))
         reading2 (stopped_clock (minutes 2) []))
     = Some (Exception ''ValueError'')
   \<and> detected_patterns (fst (snd (add_event
         (fst (run default_agent (stopped_clock (minutes 2) [])
                [Register raising_pattern, Register pattern1, AddEvent reading0]))
         reading2 (stopped_clock (minutes 2) [])))) = []
   \<and> fst (add_event
         (fst (run default_agent (stopped_clock (minutes 2) [])
                [Register pattern1, AddEvent reading0]))
         reading2 (stopped_clock (minutes 2) []))
     = None
   \<and> map det_pattern_id (detected_patterns (fst (snd (add_event
         (fst (run default_agent (stopped_clock (minutes 2) [])
                [Register pattern1, AddEvent reading0]))
         reading2 (stopped_clock (minutes 2) []))))) = [''temp_spike_01'']"
  by (simp add: ev_defs agent_defs pat_defs Let_def)

subsection \<open>The events given to the condition and to the action\<close>

text \<open>
  Claim C1 says that the condition and the action receive the last \<open>len(event_types)\<close>
  candidates only and that the detection lists their ids. Three readings of 20, 30 and 31
  degrees arrive within two minutes. The last two differ by one degree, so the condition is
  false on them; yet the third \<open>add_event\<close> detects the temperature pattern, lists all three
  ids, and the action reports three events: both callables were given all candidates.
\<close>

theorem trailing_slice_counterexample:
  "map det_matching_events (detected_patterns (fst (snd (add_event
         (fst (run default_agent (stopped_clock (minutes 2) [])
                [Register pattern1, AddEvent reading0, AddEvent reading1]))
         reading2 (stopped_clock (minutes 2) [])))))
     = [''MAN_0000'', ''MAN_0001'', ''MAN_0002''] # []
   \<and> user (snd (snd (add_event
         (fst (run default_agent (stopped_clock (minutes 2) [])
                [Register pattern1, AddEvent reading0, AddEvent reading1]))
         reading2 (stopped_clock (minutes 2) []))))
     = [LogWarning ''Temperature spike detected! Events: '' 3]
   \<and> drop (length [reading0, reading1, reading2] - length (event_types pattern1))
        [reading0, reading1, reading2] = [reading1, reading2]
   \<and> map event_id [reading1, reading2] = [''MAN_0001'', ''MAN_0002'']
   \<and> fst (condition pattern1 [reading1, reading2] []) = Inr False"
  by (simp add: ev_defs agent_defs pat_defs Let_def)

text \<open>
  Claim C1 as amended. In an evaluation pass, let \<open>recent\<close> be the candidates that
  \<open>_get_recent_events\<close> returns for a pattern, and let them pass the length test, the span
  test and the comparison of the trailing types. Then the result of \<open>matches\<close> is the result
  of the condition on all of \<open>recent\<close>. When that is true, the detection appended lists the
  ids of all of \<open>recent\<close>, \<open>patterns_detected\<close> grows by one, and the action is called on all of
  \<open>recent\<close>; the pass then goes on with the remaining patterns unless the action raised
  something that is not an \<open>Exception\<close>.
\<close>

theorem callables_get_all_candidates:
  assumes "get_recent_events a (time_window p) w = (Inr recent, w1)"
    and "length (event_types p) \<le> length recent" and "recent \<noteq> []"
    and "timestamp (last recent) - timestamp (hd recent) \<le> time_window p"
    and "py_slice_from (map event_type recent) (- int (length (event_types p))) = event_types p"
  shows "matches p recent (user w1) = condition p recent (user w1)
     \<and> (condition p recent (user w1) = (Inr True, u2) \<longrightarrow>
         (let a1 = a\<lparr> detected_patterns := detected_patterns a @
                       [\<lparr> det_pattern_id = pattern_id p, det_pattern_name = name p,
                          det_timestamp = clock w1 (reads w1),
                          det_matching_events = map event_id recent,
                          det_description = description p \<rparr>],
                     statistics := (statistics a)
                       \<lparr>patterns_detected := patterns_detected (statistics a) + 1\<rparr> \<rparr>;
              w3 = w1\<lparr> reads := Suc (reads w1), user := snd (action p recent u2) \<rparr>
          in check_patterns_loop a w (p # rest) =
               (case fst (action p recent u2) of
                  Inl (BaseException c) \<Rightarrow> (Some (BaseException c), a1, w3)
                | _ \<Rightarrow> check_patterns_loop a1 w3 rest)))"
proof -
  have m: "matches p recent (user w1) = condition p recent (user w1)"
    using assms(2-5) by (simp add: matches_def)
  have "check_patterns_loop a w (p # rest) =
          (case fst (action p recent u2) of
             Inl (BaseException c) \<Rightarrow>
               (Some (BaseException c),
                a\<lparr> detected_patterns := detected_patterns a @
                       [\<lparr> det_pattern_id = pattern_id p, det_pattern_name = name p,
                          det_timestamp = clock w1 (reads w1),
                          det_matching_events = map event_id recent,
                          det_description = description p \<rparr>],
                     statistics := (statistics a)
                       \<lparr>patterns_detected := patterns_detected (statistics a) + 1\<rparr> \<rparr>,
                w1\<lparr> reads := Suc (reads w1), user := snd (action p recent u2) \<rparr>)
           | _ \<Rightarrow> check_patterns_loop
                 (a\<lparr> detected_patterns := detected_patterns a @
                       [\<lparr> det_pattern_id = pattern_id p, det_pattern_name = name p,
                          det_timestamp = clock w1 (reads w1),
                          det_matching_events = map event_id recent,
                          det_description = description p \<rparr>],
                     statistics := (statistics a)
                       \<lparr>patterns_detected := patterns_detected (statistics a) + 1\<rparr> \<rparr>)
                 (w1\<lparr> reads := Suc (reads w1), user := snd (action p recent u2) \<rparr>) rest)"
    if c: "condition p recent (user w1) = (Inr True, u2)"
    using assms(1) m c
    by (cases "action p recent u2")
       (auto simp: handle_pattern_match_def datetime_now_def Let_def
             split: sum.splits raised.splits)
  with m show ?thesis by (simp add: Let_def)
qed

theorem callables_get_all_candidates_witness:
  "get_recent_events
       (default_agent\<lparr>event_buffer := [reading0, reading1, reading2]\<rparr>) (time_window pattern1)
       (stopped_clock (minutes 2) [])
     = (Inr [reading0, reading1, reading2], (stopped_clock (minutes 2) [])\<lparr>reads := 1\<rparr>)
   \<and> py_slice_from (map event_type [reading0, reading1, reading2])
        (- int (length (event_types pattern1))) = event_types pattern1
   \<and> matches pattern1 [reading0, reading1, reading2] [] = (Inr True, [])
   \<and> map det_matching_events (detected_patterns (fst (snd (check_patterns_loop
        (default_agent\<lparr>event_buffer := [reading0, reading1, reading2]\<rparr>)
        (stopped_clock (minutes 2) []) [pattern1]))))
      = [''MAN_0000'', ''MAN_0001'', ''MAN_0002''] # []
   \<and> user (snd (snd (check_patterns_loop
        (default_agent\<lparr>event_buffer := [reading0, reading1, reading2]\<rparr>)
        (stopped_clock (minutes 2) []) [pattern1])))
      = [LogWarning ''Temperature spike detected! Events: '' 3]"
proof -
  have g: "get_recent_events
       (default_agent\<lparr>event_buffer := [reading0, reading1, reading2]\<rparr>) (time_window pattern1)
       (stopped_clock (minutes 2) [])
     = (Inr [reading0, reading1, reading2], (stopped_clock (minutes 2) [])\<lparr>reads := 1\<rparr>)"
    by (simp add: get_recent_events_def datetime_now_def stopped_clock_def pattern1_def ev_defs
        datetime_sub_def datetime_min_def datetime_max_def)
  have l: "length (event_types pattern1) \<le> length [reading0, reading1, reading2]"
    by (simp add: pattern1_def)
  have n: "[reading0, reading1, reading2] \<noteq> []" by simp
  have s: "timestamp (last [reading0, reading1, reading2]) - timestamp (hd [reading0, reading1, reading2])
            \<le> time_window pattern1"
    by (simp add: pattern1_def ev_defs)
  have t: "py_slice_from (map event_type [reading0, reading1, reading2])
        (- int (length (event_types pattern1))) = event_types pattern1"
    by (simp add: pattern1_def ev_defs py_slice_from_def)
  have c: "condition pattern1 [reading0, reading1, reading2]
             (user ((stopped_clock (minutes 2) [])\<lparr>reads := 1\<rparr>)) = (Inr True, [])"
    by (simp add: pat_defs ev_defs dict_get_def stopped_clock_def)
  have u: "user ((stopped_clock (minutes 2) ([]::log_record list))\<lparr>reads := 1\<rparr>) = []"
    by (simp add: stopped_clock_def)
  have a: "action pattern1 [reading0, reading1, reading2] [] =
             (Inr (), [LogWarning ''Temperature spike detected! Events: '' 3])"
    by (simp add: pat_defs)
  note th = callables_get_all_candidates[OF g l n s t, where ?u2.0="[]" and rest="[]"]
  have i: "detected_patterns default_agent = []"
    by (simp add: default_agent_def CEPAgent_init_def)
  have e: "map event_id [reading0, reading1, reading2] = [''MAN_0000'', ''MAN_0001'', ''MAN_0002'']"
    by (simp add: ev_defs)
  from th c u a g t i e show ?thesis
    by (simp add: Let_def del: check_patterns_loop.simps(2))
qed

end
